theory Spec2Isabelle
  imports Main "HOL-Library.Sublist"
begin

section \<open>The API client of src/api/client.js\<close>

text \<open>
  The module wraps one axios instance, \<open>apiClient\<close>, with a request interceptor that
  attaches the bearer token and a response interceptor that refreshes an expired access
  token. Its state is the browser's \<open>localStorage\<close>, the two module variables
  \<open>isRefreshing\<close> and \<open>failedQueue\<close>, and the handler invocations suspended at
  \<open>await axios.post(...)\<close>. JavaScript runs each callback to its next suspension point
  without interruption, so every function below is one such uninterrupted run. The
  \<open>console\<close> calls are left out: they change nothing the module reads.
\<close>

subsection \<open>Strings and the key-value store\<close>

text \<open>\<open>s.includes(p)\<close>: \<open>p\<close> occurs in \<open>s\<close> as a contiguous substring.\<close>

fun str_includes :: "string \<Rightarrow> string \<Rightarrow> bool" where
  "str_includes [] p = (p = [])"
| "str_includes (c # cs) p = (prefix p (c # cs) \<or> str_includes cs p)"

type_synonym storage = "string \<rightharpoonup> string"

definition getItem :: "storage \<Rightarrow> string \<Rightarrow> string option" where
  "getItem st k = st k"

definition setItem :: "storage \<Rightarrow> string \<Rightarrow> string \<Rightarrow> storage" where
  "setItem st k v = st(k \<mapsto> v)"

definition removeItem :: "storage \<Rightarrow> string \<Rightarrow> storage" where
  "removeItem st k = st(k := None)"

text \<open>
  JavaScript truthiness of what \<open>getItem\<close> returns: \<open>null\<close> (the key is absent) and
  the empty string are falsy, every other string is truthy.
\<close>

definition truthy :: "string option \<Rightarrow> bool" where
  "truthy v = (case v of None \<Rightarrow> False | Some t \<Rightarrow> t \<noteq> [])"

text \<open>A template literal prints \<open>null\<close> for a null value.\<close>

definition template :: "string option \<Rightarrow> string" where
  "template v = (case v of None \<Rightarrow> ''null'' | Some t \<Rightarrow> t)"

subsection \<open>Request descriptors and errors\<close>

text \<open>
  A request descriptor (axios \<open>config\<close>). \<open>url\<close> is optional in axios, and reading
  \<open>config.url.includes\<close> of a descriptor without one throws a TypeError. \<open>retry\<close> is
  the custom field \<open>_retry\<close>, absent (falsy) until the response interceptor sets it;
  axios keeps the custom fields of a descriptor it is called with, so \<open>error.config\<close>
  of a replayed request carries the mark of the descriptor that was replayed.
\<close>

record request =
  url :: "string option"
  http_method :: string
  headers :: "string \<rightharpoonup> string"
  data :: string
  retry :: bool

text \<open>
  The error a failed request rejects with: \<open>config\<close> is the descriptor of the request,
  \<open>status\<close> is \<open>error.response?.status\<close> (\<open>None\<close> when no response arrived).
\<close>

record axios_error =
  config :: request
  status :: "nat option"
  message :: string

datatype reason = Axios axios_error | TypeError

subsection \<open>The request interceptor (lines 34-52)\<close>

definition request_interceptor :: "storage \<Rightarrow> request \<Rightarrow> reason + request" where
  "request_interceptor localStorage cfg =
     (let token = getItem localStorage ''access_token'' in
      case token of
        None \<Rightarrow> Inr cfg
      | Some t \<Rightarrow>
          if t = [] then Inr cfg
          else (case url cfg of
                  None \<Rightarrow> Inl TypeError
                | Some u \<Rightarrow>
                    if \<not> str_includes u ''/auth/login'' \<and> \<not> str_includes u ''/auth/registration''
                    then Inr (cfg\<lparr>headers := (headers cfg)(''Authorization'' \<mapsto> ''Bearer '' @ t)\<rparr>)
                    else Inr cfg))"

subsection \<open>The coordinator's state\<close>

text \<open>
  What the module does to the outside, in the order it does it: the refresh call made
  with the bare \<open>axios.post\<close> (its URL, the headers it is given and the refresh token of
  its body), the assignment to \<open>window.location.href\<close>, and the settling of a queued
  promise by \<open>processQueue\<close> (the promise is named by the request its continuation
  closes over).
\<close>

datatype effect =
    RefreshPost string "string \<rightharpoonup> string" string
  | Navigate string
  | QueueResolve request "string option"
  | QueueReject request reason

text \<open>
  \<open>awaiting\<close> holds the \<open>originalRequest\<close> of every handler invocation suspended at
  \<open>await axios.post(...)\<close>: one entry for each refresh call in flight.
\<close>

record coordinator =
  localStorage :: storage
  isRefreshing :: bool
  failedQueue :: "request list"
  awaiting :: "request list"
  effects :: "effect list"

definition init :: "storage \<Rightarrow> coordinator" where
  "init st = \<lparr>localStorage = st, isRefreshing = False, failedQueue = [], awaiting = [], effects = []\<rparr>"

text \<open>
  What becomes of the promise a handler returns: rejected with a reason; pending on a
  promise pushed onto \<open>failedQueue\<close>; suspended at the refresh call; or following the
  request \<open>apiClient\<close> dispatched after the request interceptor.
\<close>

datatype outcome = Rejected reason | Queued | Awaiting | Dispatched request

text \<open>
  \<open>apiClient(config)\<close>: the descriptor passes the request interceptor; an exception
  thrown there rejects the returned promise.
\<close>

definition apiClient :: "storage \<Rightarrow> request \<Rightarrow> outcome" where
  "apiClient st cfg = (case request_interceptor st cfg of Inl e \<Rightarrow> Rejected e | Inr c \<Rightarrow> Dispatched c)"

subsection \<open>processQueue (lines 58-68)\<close>

definition settle :: "reason option \<Rightarrow> string option \<Rightarrow> coordinator \<Rightarrow> request \<Rightarrow> coordinator" where
  "settle error token s prom =
     (case error of
        Some e \<Rightarrow> s\<lparr>effects := effects s @ [QueueReject prom e]\<rparr>
      | None \<Rightarrow> s\<lparr>effects := effects s @ [QueueResolve prom token]\<rparr>)"

definition processQueue :: "reason option \<Rightarrow> string option \<Rightarrow> coordinator \<Rightarrow> coordinator" where
  "processQueue error token s = (foldl (settle error token) s (failedQueue s))\<lparr>failedQueue := []\<rparr>"

subsection \<open>The response error handler (lines 76-177)\<close>

text \<open>Lines 137-143: no refresh token. The \<open>return\<close> is before the \<open>try\<close>.\<close>

definition no_refresh_token :: "axios_error \<Rightarrow> request \<Rightarrow> coordinator \<Rightarrow> outcome \<times> coordinator" where
  "no_refresh_token error originalRequest s =
     (Rejected (Axios (error\<lparr>config := originalRequest\<rparr>)),
      s\<lparr>localStorage := removeItem (removeItem (localStorage s) ''access_token'') ''refresh_token'',
        effects := effects s @ [Navigate ''/login'']\<rparr>)"

text \<open>Lines 145-150: the refresh call is issued and the handler suspends.\<close>

definition issue_refresh :: "string \<Rightarrow> string \<Rightarrow> request \<Rightarrow> coordinator \<Rightarrow> outcome \<times> coordinator" where
  "issue_refresh API_URL refreshToken originalRequest s =
     (Awaiting,
      s\<lparr>awaiting := awaiting s @ [originalRequest],
        effects := effects s @ [RefreshPost (API_URL @ ''/auth/token/refresh/'') Map.empty refreshToken]\<rparr>)"

text \<open>Lines 113-115: the endpoints the refresh is skipped for.\<close>

definition auth_endpoint :: "string \<Rightarrow> bool" where
  "auth_endpoint u =
     (str_includes u ''/auth/login'' \<or> str_includes u ''/auth/registration''
      \<or> str_includes u ''/auth/google'')"

definition onRejected :: "string \<Rightarrow> axios_error \<Rightarrow> coordinator \<Rightarrow> outcome \<times> coordinator" where
  "onRejected API_URL error s =
     (let originalRequest = config error in
      if status error = Some 401 \<and> \<not> retry originalRequest then
        (case url originalRequest of
           None \<Rightarrow> (Rejected TypeError, s)
         | Some u \<Rightarrow>
             if auth_endpoint u
             then (Rejected (Axios error), s)
             else if isRefreshing s
             then (Queued, s\<lparr>failedQueue := failedQueue s @ [originalRequest]\<rparr>)
             else
               (let marked = originalRequest\<lparr>retry := True\<rparr>;
                    s1 = s\<lparr>isRefreshing := True\<rparr>;
                    refreshToken = getItem (localStorage s1) ''refresh_token''
                in case refreshToken of
                     None \<Rightarrow> no_refresh_token error marked s1
                   | Some t \<Rightarrow>
                       if t = [] then no_refresh_token error marked s1
                       else issue_refresh API_URL t marked s1))
      else (Rejected (Axios error), s))"

text \<open>
  Lines 152-159 and 171-173: the refresh call resolved with the body \<open>{ access }\<close>; the
  body is taken to carry a string.
\<close>

definition refreshFulfilled :: "string \<Rightarrow> request \<Rightarrow> coordinator \<Rightarrow> outcome \<times> coordinator" where
  "refreshFulfilled access originalRequest s =
     (let s1 = s\<lparr>localStorage := setItem (localStorage s) ''access_token'' access\<rparr>;
          s2 = processQueue None (Some access) s1;
          replayed = originalRequest\<lparr>headers := (headers originalRequest)(''Authorization'' \<mapsto> ''Bearer '' @ access)\<rparr>
      in (apiClient (localStorage s2) replayed, s2\<lparr>isRefreshing := False\<rparr>))"

text \<open>Lines 161-173: the refresh call rejected with \<open>refreshError\<close>.\<close>

definition refreshRejected :: "reason \<Rightarrow> request \<Rightarrow> coordinator \<Rightarrow> outcome \<times> coordinator" where
  "refreshRejected refreshError originalRequest s =
     (let s1 = processQueue (Some refreshError) None s;
          s2 = s1\<lparr>localStorage := removeItem (removeItem (localStorage s1) ''access_token'') ''refresh_token''\<rparr>;
          s3 = s2\<lparr>effects := effects s2 @ [Navigate ''/login'']\<rparr>
      in (Rejected refreshError, s3\<lparr>isRefreshing := False\<rparr>))"

text \<open>
  Lines 124-129: the continuations of a queued promise. \<open>then\<close> runs when
  \<open>processQueue\<close> resolved it, \<open>catch\<close> when it rejected it.
\<close>

definition queued_then :: "storage \<Rightarrow> request \<Rightarrow> string option \<Rightarrow> outcome" where
  "queued_then st originalRequest token =
     apiClient st (originalRequest\<lparr>headers := (headers originalRequest)(''Authorization'' \<mapsto> ''Bearer '' @ template token)\<rparr>)"

definition queued_catch :: "reason \<Rightarrow> outcome" where
  "queued_catch err = Rejected err"

subsection \<open>Interleaved handler invocations\<close>

text \<open>
  The callbacks the event loop can run: the error handler for a failed request, and the
  resumption of the handler whose refresh call (the \<open>i\<close>-th in flight) settled. With
  no such call in flight the resumption cannot occur and the state stays as it is.
  \<open>localStorage\<close> is shared with the rest of the application (login stores the
  tokens, logout removes them), which may replace its content between two callbacks.
\<close>

datatype event =
    ResponseError axios_error
  | RefreshSucceeded nat string
  | RefreshFailed nat reason
  | StorageChanged storage

definition without :: "nat \<Rightarrow> 'a list \<Rightarrow> 'a list" where
  "without i xs = take i xs @ drop (Suc i) xs"

fun step :: "string \<Rightarrow> coordinator \<Rightarrow> event \<Rightarrow> coordinator" where
  "step API_URL s (ResponseError e) = snd (onRejected API_URL e s)"
| "step API_URL s (RefreshSucceeded i access) =
     (if i < length (awaiting s)
      then snd (refreshFulfilled access (awaiting s ! i) (s\<lparr>awaiting := without i (awaiting s)\<rparr>))
      else s)"
| "step API_URL s (RefreshFailed i err) =
     (if i < length (awaiting s)
      then snd (refreshRejected err (awaiting s ! i) (s\<lparr>awaiting := without i (awaiting s)\<rparr>))
      else s)"
| "step API_URL s (StorageChanged st) = s\<lparr>localStorage := st\<rparr>"

definition run :: "string \<Rightarrow> coordinator \<Rightarrow> event list \<Rightarrow> coordinator" where
  "run API_URL s evs = foldl (step API_URL) s evs"

text \<open>The refresh calls among a list of effects.\<close>

fun is_refresh_post :: "effect \<Rightarrow> bool" where
  "is_refresh_post (RefreshPost u h b) = True"
| "is_refresh_post e = False"

definition refresh_posts :: "coordinator \<Rightarrow> effect list" where
  "refresh_posts s = filter is_refresh_post (effects s)"

text \<open>An effect that is no refresh call carrying an \<open>Authorization\<close> header.\<close>

fun bare_call :: "effect \<Rightarrow> bool" where
  "bare_call (RefreshPost u h b) = (h ''Authorization'' = None)"
| "bare_call e = True"

text \<open>The redirects among a list of effects.\<close>

fun is_navigate :: "effect \<Rightarrow> bool" where
  "is_navigate (Navigate u) = True"
| "is_navigate e = False"

definition navigations :: "coordinator \<Rightarrow> effect list" where
  "navigations s = filter is_navigate (effects s)"

text \<open>
  The errors that take the refresh path: a 401 (line 110) for a request not marked
  \<open>_retry\<close> (line 110) whose URL is none of the skipped endpoints (lines 113-115).
\<close>

definition targets_api :: "request \<Rightarrow> bool" where
  "targets_api r = (case url r of None \<Rightarrow> False | Some u \<Rightarrow> \<not> auth_endpoint u)"

definition refreshable :: "axios_error \<Rightarrow> bool" where
  "refreshable e = (status e = Some 401 \<and> \<not> retry (config e) \<and> targets_api (config e))"

text \<open>
  What holds of every state the module can be in: a handler is suspended at the refresh
  call only while \<open>isRefreshing\<close> is set, the request it closes over is marked, and the
  requests behind the queued promises are not.
\<close>

definition coherent :: "coordinator \<Rightarrow> bool" where
  "coherent s =
     (length (awaiting s) \<le> 1 \<and> (awaiting s = [] \<or> isRefreshing s)
      \<and> list_all (\<lambda>p. retry p \<and> targets_api p) (awaiting s)
      \<and> list_all (\<lambda>p. \<not> retry p \<and> targets_api p) (failedQueue s))"

text \<open>What \<open>processQueue\<close> does to one queued promise.\<close>

definition settled :: "reason option \<Rightarrow> string option \<Rightarrow> request \<Rightarrow> effect" where
  "settled error token prom =
     (case error of Some e \<Rightarrow> QueueReject prom e | None \<Rightarrow> QueueResolve prom token)"

subsection \<open>A session used in the examples\<close>

definition req_a :: request where
  "req_a = \<lparr>url = Some ''/campaigns/'', http_method = ''get'',
            headers = [''Authorization'' \<mapsto> ''Bearer old''], data = [], retry = False\<rparr>"

definition req_b :: request where
  "req_b = \<lparr>url = Some ''/ads/7/'', http_method = ''get'',
            headers = [''Authorization'' \<mapsto> ''Bearer old''], data = [], retry = False\<rparr>"

definition req_c :: request where
  "req_c = \<lparr>url = Some ''/reports/'', http_method = ''post'',
            headers = [''Authorization'' \<mapsto> ''Bearer old''], data = ''q'', retry = False\<rparr>"

definition req_d :: request where
  "req_d = \<lparr>url = Some ''/profile/'', http_method = ''get'',
            headers = [''Authorization'' \<mapsto> ''Bearer old''], data = [], retry = False\<rparr>"





definition err401 :: "request \<Rightarrow> axios_error" where
  "err401 r = \<lparr>config = r, status = Some 401, message = ''Request failed with status code 401''\<rparr>"

definition network_error :: reason where
  "network_error = Axios \<lparr>config = \<lparr>url = Some ''http://api/auth/token/refresh/'', http_method = ''post'',
       headers = Map.empty, data = ''r1'', retry = False\<rparr>, status = None, message = ''Network Error''\<rparr>"

definition both_tokens :: storage where
  "both_tokens = [''access_token'' \<mapsto> ''old'', ''refresh_token'' \<mapsto> ''r1'']"

definition access_only :: storage where
  "access_only = [''access_token'' \<mapsto> ''old'']"


text \<open>The store after the application stored another access token.\<close>

definition other_tokens :: storage where
  "other_tokens = [''access_token'' \<mapsto> ''other'', ''refresh_token'' \<mapsto> ''r1'']"

definition refreshed_tokens :: storage where
  "refreshed_tokens = [''access_token'' \<mapsto> ''new123'', ''refresh_token'' \<mapsto> ''r1'']"

text \<open>\<open>req_b\<close> as the continuation of its queued promise replays it with the token \<open>new123\<close>.\<close>

definition req_b_replayed :: request where
  "req_b_replayed = req_b\<lparr>headers := (headers req_b)(''Authorization'' \<mapsto> ''Bearer new123'')\<rparr>"

text \<open>
  A refresh in flight for \<open>req_a\<close> with \<open>req_b\<close> queued behind it, and the same after
  the refresh call returned \<open>{ access: "new123" }\<close>.
\<close>

definition refreshing :: coordinator where
  "refreshing = run ''http://api'' (init both_tokens)
     [ResponseError (err401 req_a), ResponseError (err401 req_b)]"

definition refreshed :: coordinator where
  "refreshed = step ''http://api'' refreshing (RefreshSucceeded 0 ''new123'')"

text \<open>Three promises queued behind a refresh call.\<close>

definition three_queued :: coordinator where
  "three_queued = \<lparr>localStorage = both_tokens, isRefreshing = True, failedQueue = [req_b, req_c, req_d],
      awaiting = [], effects = [RefreshPost ''http://api/auth/token/refresh/'' Map.empty ''r1'']\<rparr>"

text \<open>The refresh endpoint answers 401.\<close>

definition refresh_401 :: reason where
  "refresh_401 = Axios \<lparr>config = \<lparr>url = Some ''http://api/auth/token/refresh/'', http_method = ''post'',
       headers = Map.empty, data = ''r1'', retry = False\<rparr>, status = Some 401,
       message = ''Request failed with status code 401''\<rparr>"

text \<open>\<open>req_a\<close>, marked, as the handler that refreshed replays it with the token \<open>new123\<close>.\<close>

definition req_a_replayed :: request where
  "req_a_replayed = req_a\<lparr>retry := True, headers := (headers req_a)(''Authorization'' \<mapsto> ''Bearer new123'')\<rparr>"


section \<open>The handlers in closed form\<close>

text \<open>
  \<open>processQueue\<close> visits the queue front to back; each handler is then an update of
  the state's fields.
\<close>

lemma foldl_settle: "foldl (settle err tok) s q = s\<lparr>effects := effects s @ map (settled err tok) q\<rparr>"
  by (induction q arbitrary: s) (simp_all add: settle_def settled_def split: option.splits)

lemma processQueue_closed:
  "processQueue err tok s = s\<lparr>effects := effects s @ map (settled err tok) (failedQueue s), failedQueue := []\<rparr>"
  by (simp add: processQueue_def foldl_settle)

lemma refreshFulfilled_state:
  "snd (refreshFulfilled a r s) =
     s\<lparr>localStorage := setItem (localStorage s) ''access_token'' a,
       effects := effects s @ map (settled None (Some a)) (failedQueue s),
       failedQueue := [], isRefreshing := False\<rparr>"
  by (simp add: refreshFulfilled_def processQueue_closed Let_def)

lemma refreshFulfilled_outcome:
  "fst (refreshFulfilled a r s) =
     apiClient (setItem (localStorage s) ''access_token'' a)
       (r\<lparr>headers := (headers r)(''Authorization'' \<mapsto> ''Bearer '' @ a)\<rparr>)"
  by (simp add: refreshFulfilled_def processQueue_closed Let_def)

lemma refreshRejected_closed:
  "refreshRejected err r s =
     (Rejected err,
      s\<lparr>effects := effects s @ map (settled (Some err) None) (failedQueue s) @ [Navigate ''/login''],
        failedQueue := [],
        localStorage := removeItem (removeItem (localStorage s) ''access_token'') ''refresh_token'',
        isRefreshing := False\<rparr>)"
  by (simp add: refreshRejected_def processQueue_closed Let_def)

lemma apiClient_bearer:
  assumes "getItem st ''access_token'' = Some a" and "url r = Some u"
  shows "apiClient st (r\<lparr>headers := (headers r)(''Authorization'' \<mapsto> ''Bearer '' @ a)\<rparr>)
         = Dispatched (r\<lparr>headers := (headers r)(''Authorization'' \<mapsto> ''Bearer '' @ a)\<rparr>)"
  using assms by (simp add: apiClient_def request_interceptor_def)

lemma apiClient_store_token:
  assumes "getItem st ''access_token'' = Some t" and "t \<noteq> []" and "targets_api p"
  shows "apiClient st (p\<lparr>headers := (headers p)(''Authorization'' \<mapsto> v)\<rparr>)
         = Dispatched (p\<lparr>headers := (headers p)(''Authorization'' \<mapsto> ''Bearer '' @ t)\<rparr>)"
  using assms
  by (auto simp add: apiClient_def request_interceptor_def targets_api_def auth_endpoint_def
      split: option.splits)

lemma onRejected_other:
  "\<not> refreshable e \<Longrightarrow> snd (onRejected api e s) = s"
  by (auto simp add: onRejected_def refreshable_def targets_api_def Let_def split: option.splits)

lemma onRejected_queued:
  "refreshable e \<Longrightarrow> isRefreshing s \<Longrightarrow>
     onRejected api e s = (Queued, s\<lparr>failedQueue := failedQueue s @ [config e]\<rparr>)"
  by (auto simp add: onRejected_def refreshable_def targets_api_def Let_def split: option.splits)

lemma onRejected_no_token:
  "refreshable e \<Longrightarrow> \<not> isRefreshing s \<Longrightarrow> \<not> truthy (getItem (localStorage s) ''refresh_token'') \<Longrightarrow>
     onRejected api e s =
       (Rejected (Axios (e\<lparr>config := (config e)\<lparr>retry := True\<rparr>\<rparr>)),
        s\<lparr>isRefreshing := True,
          localStorage := removeItem (removeItem (localStorage s) ''access_token'') ''refresh_token'',
          effects := effects s @ [Navigate ''/login'']\<rparr>)"
  by (auto simp add: onRejected_def refreshable_def targets_api_def truthy_def no_refresh_token_def Let_def split: option.splits)

lemma onRejected_issue:
  "refreshable e \<Longrightarrow> \<not> isRefreshing s \<Longrightarrow> getItem (localStorage s) ''refresh_token'' = Some t \<Longrightarrow> t \<noteq> [] \<Longrightarrow>
     onRejected api e s =
       (Awaiting,
        s\<lparr>isRefreshing := True, awaiting := awaiting s @ [(config e)\<lparr>retry := True\<rparr>],
          effects := effects s @ [RefreshPost (api @ ''/auth/token/refresh/'') Map.empty t]\<rparr>)"
  by (auto simp add: onRejected_def refreshable_def targets_api_def issue_refresh_def Let_def split: option.splits)

subsection \<open>Every reachable state is coherent\<close>

lemma coherent_onRejected: "coherent s \<Longrightarrow> coherent (snd (onRejected api e s))"
proof (cases "refreshable e")
  case False
  assume "coherent s"
  with False show ?thesis by (simp add: onRejected_other)
next
  case r: True
  assume c: "coherent s"
  show ?thesis
  proof (cases "isRefreshing s")
    case True
    with r c show ?thesis
      by (simp add: onRejected_queued coherent_def refreshable_def)
  next
    case idle: False
    with c have a: "awaiting s = []" by (simp add: coherent_def)
    show ?thesis
    proof (cases "truthy (getItem (localStorage s) ''refresh_token'')")
      case False
      with r idle c show ?thesis
        by (simp add: onRejected_no_token coherent_def)
    next
      case True
      then obtain t where "getItem (localStorage s) ''refresh_token'' = Some t" "t \<noteq> []"
        by (auto simp add: truthy_def split: option.splits)
      with r idle c a show ?thesis
        by (simp add: onRejected_issue coherent_def refreshable_def targets_api_def)
    qed
  qed
qed

lemma without_single: "length xs \<le> 1 \<Longrightarrow> i < length xs \<Longrightarrow> without i xs = []"
  by (cases xs) (simp_all add: without_def)

lemma coherent_step: "coherent s \<Longrightarrow> coherent (step api s ev)"
proof (cases ev)
  case (ResponseError e)
  assume "coherent s"
  with ResponseError show ?thesis by (simp add: coherent_onRejected)
next
  case (RefreshSucceeded i a)
  assume "coherent s"
  with RefreshSucceeded show ?thesis
    by (simp add: refreshFulfilled_state) (simp add: coherent_def without_single)
next
  case (RefreshFailed i err)
  assume "coherent s"
  with RefreshFailed show ?thesis
    by (simp add: refreshRejected_closed) (simp add: coherent_def without_single)
next
  case (StorageChanged st)
  assume "coherent s"
  with StorageChanged show ?thesis by (simp add: coherent_def)
qed

lemma coherent_run: "coherent s \<Longrightarrow> coherent (run api s evs)"
  unfolding run_def by (induction evs arbitrary: s) (simp_all add: coherent_step)

lemma coherent_init: "coherent (init st)"
  by (simp add: coherent_def init_def)

subsection \<open>Errors arriving while a refresh is in progress\<close>


subsection \<open>The example session, evaluated\<close>

lemma refreshing_state:
  "refreshing = \<lparr>localStorage = both_tokens, isRefreshing = True, failedQueue = [req_b],
      awaiting = [req_a\<lparr>retry := True\<rparr>],
      effects = [RefreshPost ''http://api/auth/token/refresh/'' Map.empty ''r1'']\<rparr>"
  by (simp add: refreshing_def run_def onRejected_def init_def both_tokens_def err401_def req_a_def req_b_def
      auth_endpoint_def getItem_def issue_refresh_def)

lemma refreshed_tokens_eq: "setItem both_tokens ''access_token'' ''new123'' = refreshed_tokens"
  by (auto simp add: setItem_def both_tokens_def refreshed_tokens_def)

lemma refreshed_state:
  "refreshed = \<lparr>localStorage = refreshed_tokens, isRefreshing = False, failedQueue = [],
      awaiting = [],
      effects = [RefreshPost ''http://api/auth/token/refresh/'' Map.empty ''r1'',
                 QueueResolve req_b (Some ''new123'')]\<rparr>"
  by (simp add: refreshed_def refreshing_state refreshFulfilled_state without_def settled_def refreshed_tokens_eq)

lemma targets_api_url: "targets_api p \<Longrightarrow> \<exists>u. url p = Some u"
  by (simp add: targets_api_def split: option.splits)

lemma refreshable_a: "refreshable (err401 req_a)"
  by (simp add: refreshable_def err401_def req_a_def targets_api_def auth_endpoint_def)

lemma refreshable_b: "refreshable (err401 req_b)"
  by (simp add: refreshable_def err401_def req_b_def targets_api_def auth_endpoint_def)

lemma refreshable_b_replayed: "refreshable (err401 req_b_replayed)"
  by (simp add: refreshable_def err401_def req_b_replayed_def req_b_def targets_api_def auth_endpoint_def)

lemma req_a_replayed_dispatched:
  "fst (refreshFulfilled ''new123'' (req_a\<lparr>retry := True\<rparr>) (refreshing\<lparr>awaiting := []\<rparr>))
     = Dispatched req_a_replayed"
  by (simp add: refreshFulfilled_outcome refreshing_state apiClient_def request_interceptor_def
      getItem_def setItem_def both_tokens_def req_a_def req_a_replayed_def)

lemma req_b_replayed_dispatched:
  "queued_then refreshed_tokens req_b (Some ''new123'') = Dispatched req_b_replayed"
  by (simp add: queued_then_def apiClient_def request_interceptor_def
        refreshed_tokens_def getItem_def template_def req_b_def req_b_replayed_def)

subsection \<open>The refresh calls among the effects\<close>

lemma refresh_posts_queue [simp]:
  "refresh_posts (s\<lparr>failedQueue := q\<rparr>) = refresh_posts s"
  by (simp add: refresh_posts_def)

lemma refresh_posts_refreshRejected:
  "refresh_posts (snd (refreshRejected err r s)) = refresh_posts s"
  by (simp add: refreshRejected_closed refresh_posts_def settled_def filter_map comp_def)

lemma bare_onRejected:
  "list_all bare_call (effects s) \<Longrightarrow> list_all bare_call (effects (snd (onRejected api e s)))"
  by (auto simp add: onRejected_def no_refresh_token_def issue_refresh_def Let_def split: option.splits)

lemma bare_step: "list_all bare_call (effects s) \<Longrightarrow> list_all bare_call (effects (step api s ev))"
proof (cases ev)
  case (ResponseError e)
  assume "list_all bare_call (effects s)"
  with ResponseError show ?thesis by (simp add: bare_onRejected)
next
  case (RefreshSucceeded i a)
  assume "list_all bare_call (effects s)"
  with RefreshSucceeded show ?thesis
    by (auto simp add: refreshFulfilled_state settled_def list_all_iff)
next
  case (RefreshFailed i err)
  assume "list_all bare_call (effects s)"
  with RefreshFailed show ?thesis
    by (auto simp add: refreshRejected_closed settled_def list_all_iff)
next
  case (StorageChanged st)
  assume "list_all bare_call (effects s)"
  with StorageChanged show ?thesis by simp
qed

lemma bare_run: "list_all bare_call (effects s) \<Longrightarrow> list_all bare_call (effects (run api s evs))"
  unfolding run_def by (induction evs arbitrary: s) (simp_all add: bare_step)

section \<open>The request interceptor\<close>




text \<open>
  C9: the request interceptor is idempotent: applied again, with the same store, to the
  descriptor it returned, it returns that descriptor unchanged, so the header set after
  two applications is the header set after one.
\<close>

theorem request_interceptor_idempotent:
  "request_interceptor st cfg = Inr c \<Longrightarrow> request_interceptor st c = Inr c"
  by (auto simp add: request_interceptor_def split: option.splits if_splits)

theorem request_interceptor_idempotent_witness:
  "request_interceptor refreshed_tokens req_b = Inr req_b_replayed
   \<and> request_interceptor refreshed_tokens req_b_replayed = Inr req_b_replayed"
proof -
  have once: "request_interceptor refreshed_tokens req_b = Inr req_b_replayed"
    by (simp add: request_interceptor_def refreshed_tokens_def getItem_def req_b_def req_b_replayed_def)
  from once request_interceptor_idempotent [OF once] show ?thesis by simp
qed

section \<open>The response error handler\<close>



text \<open>
  C3 (as amended): a request already marked retried never enters the refresh path: for
  every status and state the handler rejects with the error it was given and leaves the
  state as it is (nothing queued, no refresh started). The mark is set on the request that
  starts a refresh, and the replay of that request after a successful refresh keeps it, so
  that request enters the refresh path at most once. A request that is queued is not
  marked when it is queued, and its replay keeps the mark it had (none).
\<close>

theorem retried_request_fails_immediately:
  "(retry (config e) \<longrightarrow> onRejected api e s = (Rejected (Axios e), s))
   \<and> (fst (onRejected api e s) = Awaiting \<longrightarrow>
        awaiting (snd (onRejected api e s)) = awaiting s @ [(config e)\<lparr>retry := True\<rparr>])
   \<and> (fst (refreshFulfilled access r s) = Dispatched c \<longrightarrow> retry c = retry r)
   \<and> (fst (onRejected api e s) = Queued \<longrightarrow>
        failedQueue (snd (onRejected api e s)) = failedQueue s @ [config e] \<and> \<not> retry (config e))
   \<and> (queued_then st r token = Dispatched c \<longrightarrow> retry c = retry r)"
proof -
  have 1: "retry (config e) \<longrightarrow> onRejected api e s = (Rejected (Axios e), s)"
    by (simp add: onRejected_def Let_def)
  have 2: "fst (onRejected api e s) = Awaiting \<longrightarrow>
        awaiting (snd (onRejected api e s)) = awaiting s @ [(config e)\<lparr>retry := True\<rparr>]"
    by (auto simp add: onRejected_def no_refresh_token_def issue_refresh_def Let_def
        split: option.splits if_splits)
  have 3: "fst (refreshFulfilled access r s) = Dispatched c \<longrightarrow> retry c = retry r"
    by (auto simp add: refreshFulfilled_outcome apiClient_def request_interceptor_def
        split: option.splits if_splits)
  have 4: "fst (onRejected api e s) = Queued \<longrightarrow>
        failedQueue (snd (onRejected api e s)) = failedQueue s @ [config e] \<and> \<not> retry (config e)"
    by (auto simp add: onRejected_def no_refresh_token_def issue_refresh_def Let_def
        split: option.splits if_splits)
  have 5: "queued_then st r token = Dispatched c \<longrightarrow> retry c = retry r"
    by (auto simp add: queued_then_def apiClient_def request_interceptor_def
        split: option.splits if_splits)
  from 1 2 3 4 5 show ?thesis by blast
qed

theorem retried_request_fails_immediately_witness:
  "onRejected ''http://api'' (err401 req_a_replayed) refreshed
       = (Rejected (Axios (err401 req_a_replayed)), refreshed)
   \<and> awaiting (snd (onRejected ''http://api'' (err401 req_a) (init both_tokens))) = [req_a\<lparr>retry := True\<rparr>]
   \<and> retry req_a_replayed
   \<and> failedQueue (snd (onRejected ''http://api'' (err401 req_b) (refreshing\<lparr>failedQueue := []\<rparr>))) = [req_b]
   \<and> \<not> retry req_b
   \<and> \<not> retry req_b_replayed"
proof -
  have m: "retry (config (err401 req_a_replayed))"
    by (simp add: err401_def req_a_replayed_def)
  have idle: "\<not> isRefreshing (init both_tokens)"
    by (simp add: init_def)
  have tok: "getItem (localStorage (init both_tokens)) ''refresh_token'' = Some ''r1''"
    by (simp add: init_def both_tokens_def getItem_def)
  have aw: "fst (onRejected ''http://api'' (err401 req_a) (init both_tokens)) = Awaiting"
    by (simp add: onRejected_issue [OF refreshable_a idle tok])
  have qu: "fst (onRejected ''http://api'' (err401 req_b) (refreshing\<lparr>failedQueue := []\<rparr>)) = Queued"
    by (simp add: onRejected_queued refreshable_b refreshing_state)
  note a = retried_request_fails_immediately
    [of "err401 req_a_replayed" "''http://api''" refreshed "''new123''" "req_a\<lparr>retry := True\<rparr>"
      req_a_replayed refreshed_tokens None]
  note b = retried_request_fails_immediately
    [of "err401 req_a" "''http://api''" "init both_tokens" "''new123''" "req_a\<lparr>retry := True\<rparr>"
      "req_a_replayed" refreshed_tokens "Some ''new123''"]
  note c = retried_request_fails_immediately
    [of "err401 req_b" "''http://api''" "refreshing\<lparr>failedQueue := []\<rparr>" "''new123''" "req_a\<lparr>retry := True\<rparr>"
      "req_a_replayed" refreshed_tokens "Some ''new123''"]
  note d = retried_request_fails_immediately
    [of "err401 req_a" "''http://api''" "refreshing\<lparr>awaiting := []\<rparr>" "''new123''" "req_a\<lparr>retry := True\<rparr>"
      "req_a_replayed" refreshed_tokens "Some ''new123''"]
  note e = retried_request_fails_immediately
    [of "err401 req_a" "''http://api''" "refreshing" "''new123''" "req_b"
      "req_b_replayed" refreshed_tokens "Some ''new123''"]
  from a m have 1: "onRejected ''http://api'' (err401 req_a_replayed) refreshed
       = (Rejected (Axios (err401 req_a_replayed)), refreshed)"
    by blast
  from b aw have 2: "awaiting (snd (onRejected ''http://api'' (err401 req_a) (init both_tokens))) = [req_a\<lparr>retry := True\<rparr>]"
    by (simp add: init_def err401_def)
  from d req_a_replayed_dispatched have 3: "retry req_a_replayed"
    by simp
  from c qu have 4: "failedQueue (snd (onRejected ''http://api'' (err401 req_b) (refreshing\<lparr>failedQueue := []\<rparr>))) = [req_b]
     \<and> \<not> retry req_b"
    by (simp add: err401_def)
  from e req_b_replayed_dispatched 4 have 5: "\<not> retry req_b_replayed"
    by simp
  from 1 2 3 4 5 show ?thesis by blast
qed

text \<open>
  C3 as stated fails for a queued request: \<open>req_b\<close> is queued behind the refresh that
  \<open>req_a\<close> started and is replayed, unmarked, when the refresh succeeds; a second 401 on
  the replay does not fail at once but starts a second refresh call.
\<close>

theorem queued_replay_refreshes_again:
  "queued_then (localStorage refreshed) req_b (Some ''new123'') = Dispatched req_b_replayed
   \<and> onRejected ''http://api'' (err401 req_b_replayed) refreshed
       \<noteq> (Rejected (Axios (err401 req_b_replayed)), refreshed)
   \<and> fst (onRejected ''http://api'' (err401 req_b_replayed) refreshed) = Awaiting
   \<and> length (refresh_posts refreshed) = 1
   \<and> length (refresh_posts (snd (onRejected ''http://api'' (err401 req_b_replayed) refreshed))) = 2"
proof -
  have idle: "\<not> isRefreshing refreshed" by (simp add: refreshed_state)
  have tok: "getItem (localStorage refreshed) ''refresh_token'' = Some ''r1''"
    by (simp add: refreshed_state refreshed_tokens_def getItem_def)
  have 1: "queued_then (localStorage refreshed) req_b (Some ''new123'') = Dispatched req_b_replayed"
    by (simp add: refreshed_state queued_then_def apiClient_def request_interceptor_def
        refreshed_tokens_def getItem_def template_def req_b_def req_b_replayed_def)
  note r = onRejected_issue [OF refreshable_b_replayed idle tok, of "''http://api''"]
  have 2: "fst (onRejected ''http://api'' (err401 req_b_replayed) refreshed) = Awaiting"
    by (simp add: r)
  have 3: "length (refresh_posts refreshed) = 1"
    by (simp add: refresh_posts_def refreshed_state)
  have 4: "length (refresh_posts (snd (onRejected ''http://api'' (err401 req_b_replayed) refreshed))) = 2"
  proof -
    have "refresh_posts (snd (onRejected ''http://api'' (err401 req_b_replayed) refreshed))
        = refresh_posts refreshed @ [RefreshPost ''http://api/auth/token/refresh/'' Map.empty ''r1'']"
      by (simp add: r refresh_posts_def)
    with 3 show ?thesis by simp
  qed
  from 2 have "onRejected ''http://api'' (err401 req_b_replayed) refreshed
       \<noteq> (Rejected (Axios (err401 req_b_replayed)), refreshed)"
    by auto
  with 1 2 3 4 show ?thesis by blast
qed




text \<open>
  C4: what the handler does when a 401 for \<open>req_c\<close> (not marked, no authentication
  endpoint) arrives while the coordinator is idle and the store holds an access token but
  no refresh token. Both tokens are removed, the redirect to \<open>/login\<close> is the only
  effect (no refresh call), the request is rejected with its error and no handler is left
  suspended; but \<open>isRefreshing\<close>, set on line 133, is still true, because the
  \<open>return\<close> of line 142 is outside the \<open>try\<close> whose \<open>finally\<close> resets it. A 401
  that arrives afterwards is queued although no refresh is in flight.
\<close>

theorem missing_refresh_token_leaves_flag_set:
  "fst (onRejected ''http://api'' (err401 req_c) (init access_only))
     = Rejected (Axios (err401 (req_c\<lparr>retry := True\<rparr>)))
   \<and> getItem (localStorage (snd (onRejected ''http://api'' (err401 req_c) (init access_only)))) ''access_token'' = None
   \<and> getItem (localStorage (snd (onRejected ''http://api'' (err401 req_c) (init access_only)))) ''refresh_token'' = None
   \<and> effects (snd (onRejected ''http://api'' (err401 req_c) (init access_only))) = [Navigate ''/login'']
   \<and> awaiting (snd (onRejected ''http://api'' (err401 req_c) (init access_only))) = []
   \<and> isRefreshing (snd (onRejected ''http://api'' (err401 req_c) (init access_only)))
   \<and> fst (onRejected ''http://api'' (err401 req_b)
        (snd (onRejected ''http://api'' (err401 req_c) (init access_only)))) = Queued"
  by (simp add: onRejected_def no_refresh_token_def init_def access_only_def err401_def req_c_def req_b_def
      auth_endpoint_def getItem_def removeItem_def)

text \<open>
  C10: the refresh call is made with the bare \<open>axios.post\<close>, outside the two
  interceptors of \<open>apiClient\<close>. In every run, no refresh call carries an
  \<open>Authorization\<close> header; the handler that issues it gives it the URL and the refresh
  token only, whatever access token the store holds, and queues nothing. When the call
  fails, with a 401 as with any other reason, the suspended handler resumes in its
  \<open>catch\<close> block: no further refresh call is issued, the in-flight call is gone, the
  queue is empty and \<open>isRefreshing\<close> is false, so the failure never re-enters the
  refresh path.
\<close>

theorem refresh_call_bypasses_interceptors:
  "list_all bare_call (effects (run api (init st) evs))
   \<and> (refreshable e \<and> \<not> isRefreshing s \<and> getItem (localStorage s) ''refresh_token'' = Some t \<and> t \<noteq> [] \<longrightarrow>
        effects (snd (onRejected api e s))
          = effects s @ [RefreshPost (api @ ''/auth/token/refresh/'') Map.empty t]
        \<and> failedQueue (snd (onRejected api e s)) = failedQueue s)
   \<and> (i < length (awaiting s) \<longrightarrow>
        refresh_posts (step api s (RefreshFailed i err)) = refresh_posts s
        \<and> length (awaiting (step api s (RefreshFailed i err))) < length (awaiting s)
        \<and> failedQueue (step api s (RefreshFailed i err)) = []
        \<and> \<not> isRefreshing (step api s (RefreshFailed i err)))"
proof -
  have 1: "list_all bare_call (effects (run api (init st) evs))"
    by (rule bare_run) (simp add: init_def)
  have 2: "refreshable e \<and> \<not> isRefreshing s \<and> getItem (localStorage s) ''refresh_token'' = Some t \<and> t \<noteq> [] \<longrightarrow>
        effects (snd (onRejected api e s))
          = effects s @ [RefreshPost (api @ ''/auth/token/refresh/'') Map.empty t]
        \<and> failedQueue (snd (onRejected api e s)) = failedQueue s"
    by (simp add: onRejected_issue)
  have 3: "i < length (awaiting s) \<longrightarrow>
        refresh_posts (step api s (RefreshFailed i err)) = refresh_posts s
        \<and> length (awaiting (step api s (RefreshFailed i err))) < length (awaiting s)
        \<and> failedQueue (step api s (RefreshFailed i err)) = []
        \<and> \<not> isRefreshing (step api s (RefreshFailed i err))"
    by (auto simp add: refreshRejected_closed refresh_posts_def settled_def filter_map comp_def without_def)
  from 1 2 3 show ?thesis by blast
qed

theorem refresh_call_bypasses_interceptors_witness:
  "list_all bare_call (effects refreshing)
   \<and> getItem (localStorage (init both_tokens)) ''access_token'' = Some ''old''
   \<and> effects (snd (onRejected ''http://api'' (err401 req_a) (init both_tokens)))
       = [RefreshPost ''http://api/auth/token/refresh/'' Map.empty ''r1'']
   \<and> refresh_posts (step ''http://api'' refreshing (RefreshFailed 0 refresh_401)) = refresh_posts refreshing
   \<and> awaiting (step ''http://api'' refreshing (RefreshFailed 0 refresh_401)) = []
   \<and> failedQueue (step ''http://api'' refreshing (RefreshFailed 0 refresh_401)) = []
   \<and> \<not> isRefreshing (step ''http://api'' refreshing (RefreshFailed 0 refresh_401))"
proof -
  have idle: "\<not> isRefreshing (init both_tokens)"
    by (simp add: init_def)
  have tok: "getItem (localStorage (init both_tokens)) ''refresh_token'' = Some ''r1''"
    by (simp add: init_def both_tokens_def getItem_def)
  have acc: "getItem (localStorage (init both_tokens)) ''access_token'' = Some ''old''"
    by (simp add: init_def both_tokens_def getItem_def)
  have inflight: "0 < length (awaiting refreshing)" and one: "length (awaiting refreshing) = 1"
    by (simp_all add: refreshing_state)
  note a = refresh_call_bypasses_interceptors [of "''http://api''" both_tokens
      "[ResponseError (err401 req_a), ResponseError (err401 req_b)]"
      "err401 req_a" "init both_tokens" "''r1''" 0 refresh_401]
  note b = refresh_call_bypasses_interceptors [of "''http://api''" both_tokens
      "[ResponseError (err401 req_a), ResponseError (err401 req_b)]"
      "err401 req_a" refreshing "''r1''" 0 refresh_401]
  from a have 1: "list_all bare_call (effects refreshing)"
    by (simp add: refreshing_def)
  from a idle tok refreshable_a
  have 2: "effects (snd (onRejected ''http://api'' (err401 req_a) (init both_tokens)))
       = [RefreshPost ''http://api/auth/token/refresh/'' Map.empty ''r1'']"
    by (simp add: init_def)
  from b inflight one
  have 3: "refresh_posts (step ''http://api'' refreshing (RefreshFailed 0 refresh_401)) = refresh_posts refreshing
   \<and> awaiting (step ''http://api'' refreshing (RefreshFailed 0 refresh_401)) = []
   \<and> failedQueue (step ''http://api'' refreshing (RefreshFailed 0 refresh_401)) = []
   \<and> \<not> isRefreshing (step ''http://api'' refreshing (RefreshFailed 0 refresh_401))"
    by simp
  from 1 acc 2 3 show ?thesis by blast
qed

section \<open>Settling the queue\<close>

text \<open>
  C2: \<open>processQueue\<close> settles every queued promise exactly once, front to back, and
  leaves the queue empty: with an error it rejects each with that error, without one it
  resolves each with the token. So when the refresh call resolves, the effects added are
  one resolution with the new access token for each queued promise, in queue order; when
  it rejects, one rejection with the refresh error for each, in queue order (followed by
  the redirect); and the queue is empty afterwards in both cases.
\<close>

theorem queue_settled_once_in_order:
  "effects (processQueue error token s)
     = effects s @ map (\<lambda>p. case error of Some e \<Rightarrow> QueueReject p e | None \<Rightarrow> QueueResolve p token) (failedQueue s)
   \<and> failedQueue (processQueue error token s) = []
   \<and> effects (snd (refreshFulfilled access r s))
     = effects s @ map (\<lambda>p. QueueResolve p (Some access)) (failedQueue s)
   \<and> failedQueue (snd (refreshFulfilled access r s)) = []
   \<and> effects (snd (refreshRejected err r s))
     = effects s @ map (\<lambda>p. QueueReject p err) (failedQueue s) @ [Navigate ''/login'']
   \<and> failedQueue (snd (refreshRejected err r s)) = []"
  by (cases error) (simp_all add: processQueue_closed refreshFulfilled_state refreshRejected_closed settled_def)

theorem queue_settled_once_in_order_witness:
  "effects (processQueue None (Some ''new123'') three_queued)
     = effects three_queued @ [QueueResolve req_b (Some ''new123''), QueueResolve req_c (Some ''new123''),
          QueueResolve req_d (Some ''new123'')]
   \<and> failedQueue (processQueue None (Some ''new123'') three_queued) = []"
  using queue_settled_once_in_order [of None "Some ''new123''" three_queued "''new123''" req_a network_error]
  by (simp add: three_queued_def)

section \<open>The refresh call succeeds\<close>

text \<open>
  C5: in every reachable state with a refresh call in flight, when that call resolves
  with the body \<open>{ access }\<close> (the claim's \<open>new123\<close> is the instance evaluated below):
  the store holds \<open>access_token = access\<close>; every queued promise is resolved with that
  token, in queue order; the continuation of each queued promise replays its request
  through \<open>apiClient\<close> with the header \<open>Authorization: Bearer <access>\<close>, and so is
  the request that started the refresh; the queue is empty, no call is in flight and
  \<open>isRefreshing\<close> is false. The replay goes through the client's pipeline: what is
  dispatched is what the request interceptor returns for the descriptor the continuation
  wrote the header on, so the header a queued request leaves with is that of the token
  the store holds when its continuation runs (\<open>access\<close> right after the refresh,
  another token if the store was written in between).
\<close>

theorem refresh_success_replays_with_new_token:
  assumes reach: "s = run api (init st) evs" and inflight: "i < length (awaiting s)"
  shows "getItem (localStorage (step api s (RefreshSucceeded i access))) ''access_token'' = Some access
    \<and> effects (step api s (RefreshSucceeded i access))
        = effects s @ map (\<lambda>p. QueueResolve p (Some access)) (failedQueue s)
    \<and> list_all (\<lambda>p. queued_then (localStorage (step api s (RefreshSucceeded i access))) p (Some access)
          = Dispatched (p\<lparr>headers := (headers p)(''Authorization'' \<mapsto> ''Bearer '' @ access)\<rparr>))
        (failedQueue s)
    \<and> fst (refreshFulfilled access (awaiting s ! i) (s\<lparr>awaiting := without i (awaiting s)\<rparr>))
        = Dispatched ((awaiting s ! i)\<lparr>headers := (headers (awaiting s ! i))(''Authorization'' \<mapsto> ''Bearer '' @ access)\<rparr>)
    \<and> failedQueue (step api s (RefreshSucceeded i access)) = []
    \<and> awaiting (step api s (RefreshSucceeded i access)) = []
    \<and> \<not> isRefreshing (step api s (RefreshSucceeded i access))
    \<and> (getItem st' ''access_token'' = Some t' \<and> t' \<noteq> [] \<longrightarrow>
         list_all (\<lambda>p. queued_then st' p (Some access)
            = Dispatched (p\<lparr>headers := (headers p)(''Authorization'' \<mapsto> ''Bearer '' @ t')\<rparr>))
          (failedQueue s))
    \<and> queued_then st' q tok
        = (case request_interceptor st'
                  (q\<lparr>headers := (headers q)(''Authorization'' \<mapsto> ''Bearer '' @ template tok)\<rparr>) of
             Inl e \<Rightarrow> Rejected e | Inr c \<Rightarrow> Dispatched c)
    \<and> fst (refreshFulfilled access r sx)
        = (case request_interceptor (setItem (localStorage sx) ''access_token'' access)
                  (r\<lparr>headers := (headers r)(''Authorization'' \<mapsto> ''Bearer '' @ access)\<rparr>) of
             Inl e \<Rightarrow> Rejected e | Inr c \<Rightarrow> Dispatched c)"
proof -
  from reach have c: "coherent s" by (simp add: coherent_run coherent_init)
  let ?st = "setItem (localStorage s) ''access_token'' access"
  have tok: "getItem ?st ''access_token'' = Some access"
    by (simp add: getItem_def setItem_def)
  have bearer: "targets_api p \<Longrightarrow>
      apiClient ?st (p\<lparr>headers := (headers p)(''Authorization'' \<mapsto> ''Bearer '' @ access)\<rparr>)
      = Dispatched (p\<lparr>headers := (headers p)(''Authorization'' \<mapsto> ''Bearer '' @ access)\<rparr>)" for p
  proof -
    assume "targets_api p"
    then obtain u where "url p = Some u" using targets_api_url by blast
    from apiClient_bearer [OF tok this] show ?thesis .
  qed
  from c have q: "list_all targets_api (failedQueue s)"
    by (simp add: coherent_def list_all_iff)
  from c inflight have a: "targets_api (awaiting s ! i)"
    by (simp add: coherent_def list_all_length)
  from c inflight have w: "without i (awaiting s) = []"
    by (simp add: coherent_def without_single)
  have 1: "getItem (localStorage (step api s (RefreshSucceeded i access))) ''access_token'' = Some access"
    using inflight tok by (simp add: refreshFulfilled_state)
  have 2: "effects (step api s (RefreshSucceeded i access))
        = effects s @ map (\<lambda>p. QueueResolve p (Some access)) (failedQueue s)"
    using inflight by (simp add: refreshFulfilled_state settled_def)
  have 3: "list_all (\<lambda>p. queued_then (localStorage (step api s (RefreshSucceeded i access))) p (Some access)
          = Dispatched (p\<lparr>headers := (headers p)(''Authorization'' \<mapsto> ''Bearer '' @ access)\<rparr>))
        (failedQueue s)"
    using inflight q bearer
    by (simp add: refreshFulfilled_state queued_then_def template_def list_all_iff)
  have 4: "fst (refreshFulfilled access (awaiting s ! i) (s\<lparr>awaiting := without i (awaiting s)\<rparr>))
        = Dispatched ((awaiting s ! i)\<lparr>headers := (headers (awaiting s ! i))(''Authorization'' \<mapsto> ''Bearer '' @ access)\<rparr>)"
    using a bearer by (simp add: refreshFulfilled_outcome)
  have 5: "failedQueue (step api s (RefreshSucceeded i access)) = []
    \<and> awaiting (step api s (RefreshSucceeded i access)) = []
    \<and> \<not> isRefreshing (step api s (RefreshSucceeded i access))"
    using inflight w by (simp add: refreshFulfilled_state)
  have 6: "list_all (\<lambda>p. queued_then st' p (Some access)
            = Dispatched (p\<lparr>headers := (headers p)(''Authorization'' \<mapsto> ''Bearer '' @ t')\<rparr>))
          (failedQueue s)"
    if "getItem st' ''access_token'' = Some t'" and "t' \<noteq> []"
    unfolding list_all_iff queued_then_def
  proof
    fix p assume "p \<in> set (failedQueue s)"
    with q have "targets_api p" by (simp add: list_all_iff)
    from apiClient_store_token [OF that this]
    show "apiClient st' (p\<lparr>headers := (headers p)(''Authorization'' \<mapsto> ''Bearer '' @ template (Some access))\<rparr>)
        = Dispatched (p\<lparr>headers := (headers p)(''Authorization'' \<mapsto> ''Bearer '' @ t')\<rparr>)" .
  qed
  have 7: "queued_then st' q tok
        = (case request_interceptor st'
                  (q\<lparr>headers := (headers q)(''Authorization'' \<mapsto> ''Bearer '' @ template tok)\<rparr>) of
             Inl e \<Rightarrow> Rejected e | Inr c \<Rightarrow> Dispatched c)"
    by (simp add: queued_then_def apiClient_def)
  have 8: "fst (refreshFulfilled access r sx)
        = (case request_interceptor (setItem (localStorage sx) ''access_token'' access)
                  (r\<lparr>headers := (headers r)(''Authorization'' \<mapsto> ''Bearer '' @ access)\<rparr>) of
             Inl e \<Rightarrow> Rejected e | Inr c \<Rightarrow> Dispatched c)"
    by (simp add: refreshFulfilled_outcome apiClient_def)
  from 1 2 3 4 5 6 7 8 show ?thesis by blast
qed

theorem refresh_success_replays_with_new_token_witness:
  "getItem (localStorage refreshed) ''access_token'' = Some ''new123''
   \<and> effects refreshed = effects refreshing @ [QueueResolve req_b (Some ''new123'')]
   \<and> queued_then (localStorage refreshed) req_b (Some ''new123'') = Dispatched req_b_replayed
   \<and> headers req_b_replayed ''Authorization'' = Some ''Bearer new123''
   \<and> failedQueue refreshed = [] \<and> awaiting refreshed = [] \<and> \<not> isRefreshing refreshed
   \<and> queued_then other_tokens req_b (Some ''new123'')
       = Dispatched (req_b\<lparr>headers := (headers req_b)(''Authorization'' \<mapsto> ''Bearer other'')\<rparr>)"
proof -
  have reach: "refreshing = run ''http://api'' (init both_tokens)
     [ResponseError (err401 req_a), ResponseError (err401 req_b)]"
    by (simp add: refreshing_def)
  have inflight: "0 < length (awaiting refreshing)"
    by (simp add: refreshing_state)
  have q: "failedQueue refreshing = [req_b]"
    by (simp add: refreshing_state)
  have other: "getItem other_tokens ''access_token'' = Some ''other''" and ne: "''other'' \<noteq> []"
    by (simp_all add: other_tokens_def getItem_def)
  have s: "step ''http://api'' refreshing (RefreshSucceeded 0 ''new123'') = refreshed"
    by (simp only: refreshed_def)
  note t = refresh_success_replays_with_new_token [OF reach inflight,
      where access = "''new123''" and st' = other_tokens and t' = "''other''" and q = req_b
        and tok = "Some ''new123''" and r = req_a and sx = refreshing]
  from t have a: "getItem (localStorage (step ''http://api'' refreshing (RefreshSucceeded 0 ''new123''))) ''access_token''
        = Some ''new123''
    \<and> effects (step ''http://api'' refreshing (RefreshSucceeded 0 ''new123''))
        = effects refreshing @ map (\<lambda>p. QueueResolve p (Some ''new123'')) (failedQueue refreshing)
    \<and> list_all (\<lambda>p. queued_then (localStorage (step ''http://api'' refreshing (RefreshSucceeded 0 ''new123''))) p
            (Some ''new123'')
          = Dispatched (p\<lparr>headers := (headers p)(''Authorization'' \<mapsto> ''Bearer '' @ ''new123'')\<rparr>))
        (failedQueue refreshing)
    \<and> failedQueue (step ''http://api'' refreshing (RefreshSucceeded 0 ''new123'')) = []
    \<and> awaiting (step ''http://api'' refreshing (RefreshSucceeded 0 ''new123'')) = []
    \<and> \<not> isRefreshing (step ''http://api'' refreshing (RefreshSucceeded 0 ''new123''))"
    by blast
  from t other ne have b: "list_all (\<lambda>p. queued_then other_tokens p (Some ''new123'')
          = Dispatched (p\<lparr>headers := (headers p)(''Authorization'' \<mapsto> ''Bearer '' @ ''other'')\<rparr>))
        (failedQueue refreshing)"
    by blast
  from a [unfolded s] b q show ?thesis
    by (simp add: req_b_replayed_def)
qed

section \<open>The refresh call fails\<close>

text \<open>
  C6: when the refresh call rejects with an error (a network error, for one), the handler
  rejects every queued promise with that same error, in queue order, and the continuation
  of each passes it on to its caller; both tokens are removed from the store; the redirect
  to \<open>/login\<close> is signalled exactly once; the promise of the request that started the
  refresh is rejected with the refresh error; and the queue is empty and
  \<open>isRefreshing\<close> false afterwards.
\<close>

theorem refresh_failure_rejects_queue:
  "fst (refreshRejected err r s) = Rejected err
   \<and> effects (snd (refreshRejected err r s))
       = effects s @ map (\<lambda>p. QueueReject p err) (failedQueue s) @ [Navigate ''/login'']
   \<and> queued_catch err = Rejected err
   \<and> getItem (localStorage (snd (refreshRejected err r s))) ''access_token'' = None
   \<and> getItem (localStorage (snd (refreshRejected err r s))) ''refresh_token'' = None
   \<and> length (navigations (snd (refreshRejected err r s))) = Suc (length (navigations s))
   \<and> failedQueue (snd (refreshRejected err r s)) = []
   \<and> \<not> isRefreshing (snd (refreshRejected err r s))"
  by (simp add: refreshRejected_closed settled_def queued_catch_def getItem_def removeItem_def
      navigations_def filter_map comp_def)

theorem refresh_failure_rejects_queue_witness:
  "step ''http://api'' (three_queued\<lparr>awaiting := [req_a\<lparr>retry := True\<rparr>]\<rparr>) (RefreshFailed 0 network_error)
     = \<lparr>localStorage = Map.empty, isRefreshing = False, failedQueue = [], awaiting = [],
        effects = [RefreshPost ''http://api/auth/token/refresh/'' Map.empty ''r1'',
                   QueueReject req_b network_error, QueueReject req_c network_error,
                   QueueReject req_d network_error, Navigate ''/login'']\<rparr>
   \<and> fst (refreshRejected network_error (req_a\<lparr>retry := True\<rparr>) three_queued) = Rejected network_error"
proof -
  note t = refresh_failure_rejects_queue [of network_error "req_a\<lparr>retry := True\<rparr>" three_queued]
  have st: "localStorage (snd (refreshRejected network_error (req_a\<lparr>retry := True\<rparr>) three_queued)) = Map.empty"
    by (auto simp add: refreshRejected_closed three_queued_def removeItem_def both_tokens_def)
  have rest: "awaiting (snd (refreshRejected network_error (req_a\<lparr>retry := True\<rparr>) three_queued)) = []"
    by (simp add: refreshRejected_closed three_queued_def)
  have "snd (refreshRejected network_error (req_a\<lparr>retry := True\<rparr>) three_queued)
    = \<lparr>localStorage = Map.empty, isRefreshing = False, failedQueue = [], awaiting = [],
        effects = [RefreshPost ''http://api/auth/token/refresh/'' Map.empty ''r1'',
                   QueueReject req_b network_error, QueueReject req_c network_error,
                   QueueReject req_d network_error, Navigate ''/login'']\<rparr>"
    using t st rest by (cases "snd (refreshRejected network_error (req_a\<lparr>retry := True\<rparr>) three_queued)")
      (simp add: three_queued_def)
  with t show ?thesis by (simp add: without_def three_queued_def)
qed

end
